theory Spec2Isabelle
  imports Main "HOL-Library.Word"
begin

section \<open>Python values\<close>

text \<open>
  The workplan argument of \<^verbatim>\<open>validate_workplan\<close> is untyped in the source, and the
  function inspects the run-time class of the argument and of every value of the
  dictionary. A Python value is therefore a tagged union of the classes a position
  file can deliver. A dictionary is the list of its items in iteration order, which for
  the Python 3 of the source (it uses f-strings) is insertion order; \<^verbatim>\<open>keys()\<close> and
  \<^verbatim>\<open>values()\<close> walk the same order. A float carries its IEEE-754 bit pattern; no
  modelled operation reads it.
\<close>

datatype py_type = TInt | TBool | TFloat | TStr | TNoneType | TList | TTuple | TDict

datatype pyval =
    PInt int
  | PBool bool
  | PFloat "64 word"
  | PStr string
  | PNone
  | PList "pyval list"
  | PTuple "pyval list"
  | PDict "(pyval \<times> pyval) list"

text \<open>\<^verbatim>\<open>type(v)\<close>: the exact class of a value.\<close>

fun type_of :: "pyval \<Rightarrow> py_type" where
  "type_of (PInt _) = TInt"
| "type_of (PBool _) = TBool"
| "type_of (PFloat _) = TFloat"
| "type_of (PStr _) = TStr"
| "type_of PNone = TNoneType"
| "type_of (PList _) = TList"
| "type_of (PTuple _) = TTuple"
| "type_of (PDict _) = TDict"

text \<open>
  \<^verbatim>\<open>isinstance(v, int)\<close>: true for the class \<^verbatim>\<open>int\<close> and for its subclass
  \<^verbatim>\<open>bool\<close>; \<^verbatim>\<open>isinstance(v, dict)\<close>: true for dictionaries only.
\<close>

definition isinstance_int :: "pyval \<Rightarrow> bool" where
  "isinstance_int v = (type_of v = TInt \<or> type_of v = TBool)"

definition isinstance_dict :: "pyval \<Rightarrow> bool" where
  "isinstance_dict v = (type_of v = TDict)"

definition dict_keys :: "(pyval \<times> pyval) list \<Rightarrow> pyval list" where
  "dict_keys kvs = map fst kvs"

definition dict_values :: "(pyval \<times> pyval) list \<Rightarrow> pyval list" where
  "dict_values kvs = map snd kvs"

subsection \<open>Formatting\<close>

text \<open>
  \<^verbatim>\<open>'{}'.format(x)\<close> on an int is its decimal numeral (when the interpreter agrees to
  produce it, see \<open>format_int\<close> below), on a class it is \<^verbatim>\<open><class 'name'>\<close>, and on a
  list it is the bracketed, comma-separated list of the \<^verbatim>\<open>repr\<close> of its elements.
\<close>

fun str_nat :: "nat \<Rightarrow> string" where
  "str_nat n =
     (if n < 10 then [''0123456789'' ! n]
      else str_nat (n div 10) @ [''0123456789'' ! (n mod 10)])"

declare str_nat.simps [simp del]

definition str_int :: "int \<Rightarrow> string" where
  "str_int i = (if i < 0 then ''-'' @ str_nat (nat (- i)) else str_nat (nat i))"

text \<open>
  Reading a decimal numeral back, used only to show that \<open>str_int\<close> loses nothing.
\<close>

definition digit_val :: "char \<Rightarrow> nat" where
  "digit_val c = of_char c - 48"

definition nat_of_digits :: "string \<Rightarrow> nat" where
  "nat_of_digits s = foldl (\<lambda>a c. 10 * a + digit_val c) 0 s"

fun type_name :: "py_type \<Rightarrow> string" where
  "type_name TInt = ''int''"
| "type_name TBool = ''bool''"
| "type_name TFloat = ''float''"
| "type_name TStr = ''str''"
| "type_name TNoneType = ''NoneType''"
| "type_name TList = ''list''"
| "type_name TTuple = ''tuple''"
| "type_name TDict = ''dict''"

definition repr_type :: "py_type \<Rightarrow> string" where
  "repr_type t = ''<class '' @ [CHR 0x27] @ type_name t @ [CHR 0x27] @ ''>''"

fun join :: "string \<Rightarrow> string list \<Rightarrow> string" where
  "join sep [] = []"
| "join sep [s] = s"
| "join sep (s # t # ss) = s @ sep @ join sep (t # ss)"

definition repr_type_list :: "py_type list \<Rightarrow> string" where
  "repr_type_list ts = ''['' @ join '', '' (map repr_type ts) @ '']''"

subsection \<open>Built-in functions\<close>

text \<open>
  \<^verbatim>\<open>sum\<close> starts from the int 0 and adds the items from left to right; \<^verbatim>\<open>max\<close> raises
  \<^verbatim>\<open>ValueError\<close> on an empty sequence and otherwise keeps the first item that no later
  item exceeds. Both are modelled on lists of ints, where Python's arithmetic is that of
  the unbounded integers. On a list holding any other value the model stops with
  \<open>Non_int_arithmetic\<close>: the source reaches neither call with such a list
  (lemmas \<open>validate_workplan_cases\<close> and \<open>position_radarchart_never_Returned\<close> below).
\<close>

datatype py_exception =
    ValueError string
  | AttributeError string
  | Non_int_arithmetic

text \<open>
  Converting an int to its decimal string is limited by the interpreter: with the default
  setting of \<^verbatim>\<open>sys.int_max_str_digits\<close>, 4300, the conversion raises \<^verbatim>\<open>ValueError\<close> when
  the numeral, not counting the sign, has more than 4300 digits. \<^verbatim>\<open>'{}'.format(n)\<close> goes
  through that conversion.
\<close>

definition int_max_str_digits :: nat where
  "int_max_str_digits = 4300"

definition format_int :: "int \<Rightarrow> py_exception + string" where
  "format_int i =
     (if int_max_str_digits < length (str_nat (nat \<bar>i\<bar>)) then
        Inl (ValueError (''Exceeds the limit (4300 digits) for integer string conversion; ''
               @ ''use sys.set_int_max_str_digits() to increase the limit''))
      else Inr (str_int i))"

fun sum_from :: "int \<Rightarrow> pyval list \<Rightarrow> py_exception + int" where
  "sum_from acc [] = Inr acc"
| "sum_from acc (PInt n # vs) = sum_from (acc + n) vs"
| "sum_from acc (_ # vs) = Inl Non_int_arithmetic"

definition py_sum :: "pyval list \<Rightarrow> py_exception + int" where
  "py_sum vs = sum_from 0 vs"

fun max_from :: "int \<Rightarrow> pyval list \<Rightarrow> py_exception + int" where
  "max_from m [] = Inr m"
| "max_from m (PInt n # vs) = max_from (if n > m then n else m) vs"
| "max_from m (_ # vs) = Inl Non_int_arithmetic"

fun py_max :: "pyval list \<Rightarrow> py_exception + int" where
  "py_max [] = Inl (ValueError ''max() arg is an empty sequence'')"
| "py_max (PInt n # vs) = max_from n vs"
| "py_max (_ # vs) = Inl Non_int_arithmetic"

section \<open>Workplan validation\<close>

text \<open>
  The three exception classes of the source, each with its message, and \<open>Uncaught\<close>
  for any other exception leaving a function.
\<close>

datatype error =
    ValuesDontSumTo100 string
  | ValuesNotTypeInt string
  | InvalidParameterType string
  | Uncaught py_exception

text \<open>
  \<^verbatim>\<open>validate_workplan\<close> (the copies in \<^verbatim>\<open>chart.py\<close> and
  \<^verbatim>\<open>positions/scripts/helper_module.py\<close> have the same body). The gate on the values is
  \<^verbatim>\<open>type(value) is int\<close>; the list in the message of \<^verbatim>\<open>ValuesNotTypeInt\<close> is filtered
  with \<^verbatim>\<open>not isinstance(value, int)\<close>. The sum is computed once for the test and once
  more for the message; an exception raised while the message is formatted leaves the
  function in place of \<^verbatim>\<open>ValuesDontSumTo100\<close>.
\<close>

definition validate_workplan :: "pyval \<Rightarrow> error + bool" where
  "validate_workplan workplan =
     (case workplan of
        PDict kvs \<Rightarrow>
          if list_all (\<lambda>v. type_of v = TInt) (dict_values kvs) then
            (case py_sum (dict_values kvs) of
               Inl e \<Rightarrow> Inl (Uncaught e)
             | Inr s \<Rightarrow>
                 if s = 100 then Inr True
                 else
                   (case py_sum (dict_values kvs) of
                      Inl e \<Rightarrow> Inl (Uncaught e)
                    | Inr s' \<Rightarrow>
                        (case format_int s' of
                           Inl e \<Rightarrow> Inl (Uncaught e)
                         | Inr d \<Rightarrow>
                             Inl (ValuesDontSumTo100
                               (''The workplan parameter values should total 100, instead sums to ''
                                  @ d @ ''.'')))))
          else
            Inl (ValuesNotTypeInt
              (''All workplan values must be integers, instead received type(s): ''
                 @ repr_type_list
                     (map type_of (filter (\<lambda>v. \<not> isinstance_int v) (dict_values kvs)))
                 @ ''.''))
      | _ \<Rightarrow>
          Inl (InvalidParameterType
            (''The workplan parameter expects a dictionary, but received ''
               @ repr_type (type_of workplan) @ ''.'')))"

section \<open>The radar chart\<close>

text \<open>
  The figure dictionary of \<^verbatim>\<open>position_radarchart\<close>: one \<^verbatim>\<open>Scatterpolar\<close> trace holding
  the keyword arguments it was built from, and the layout dictionary.
\<close>

record scatterpolar =
  sp_r :: "pyval list"
  sp_theta :: "pyval list"
  sp_fill :: string
  sp_fillcolor :: string
  sp_line_color :: string

record chart_layout =
  lo_title :: string
  lo_font_color :: string
  lo_radialaxis_visible :: bool
  lo_radialaxis_color :: string
  lo_radialaxis_linecolor :: string
  lo_radialaxis_range :: "int list"
  lo_showlegend :: bool
  lo_hovermode :: string

record figure =
  fig_data :: "scatterpolar list"
  fig_layout :: chart_layout

text \<open>
  What the function hands back when validation lets it through: the figure, or the
  exception object that the \<^verbatim>\<open>except Exception as e: return e\<close> clause returns as a value.
\<close>

datatype chart_result = Fig figure | Returned py_exception

text \<open>
  The body of the \<^verbatim>\<open>try\<close> block. The job title is a string (the docstring's type);
  \<^verbatim>\<open>.keys()\<close> on a value that is no dictionary raises \<^verbatim>\<open>AttributeError\<close>.
\<close>

definition chart_try :: "string \<Rightarrow> pyval \<Rightarrow> py_exception + figure" where
  "chart_try job_title workplan =
     (case workplan of
        PDict kvs \<Rightarrow>
          (let responsibilities = dict_keys kvs;
               r_values = dict_values kvs
           in case py_max r_values of
                Inl e \<Rightarrow> Inl e
              | Inr m \<Rightarrow>
                  (let axis_range = [0, m + 5];
                       data = [\<lparr>sp_r = r_values, sp_theta = responsibilities,
                                sp_fill = ''toself'', sp_fillcolor = ''#a1d99b'',
                                sp_line_color = ''#a1d99b''\<rparr>];
                       layout = \<lparr>lo_title = job_title @ ''<br>Responsibilities'',
                                 lo_font_color = ''#a1d99b'',
                                 lo_radialaxis_visible = True,
                                 lo_radialaxis_color = ''black'',
                                 lo_radialaxis_linecolor = ''green'',
                                 lo_radialaxis_range = axis_range,
                                 lo_showlegend = False,
                                 lo_hovermode = ''closest''\<rparr>
                   in Inr \<lparr>fig_data = data, fig_layout = layout\<rparr>))
      | _ \<Rightarrow> Inl (AttributeError ''object has no attribute keys''))"

text \<open>
  \<^verbatim>\<open>position_radarchart\<close>: an exception of \<^verbatim>\<open>validate_workplan\<close> leaves the function
  (the call sits outside the \<^verbatim>\<open>try\<close>); a true result runs the \<^verbatim>\<open>try\<close> block; a false
  result takes the \<^verbatim>\<open>else\<close> branch and raises \<^verbatim>\<open>InvalidParameterType\<close>.
\<close>

definition position_radarchart :: "string \<Rightarrow> pyval \<Rightarrow> error + chart_result" where
  "position_radarchart job_title workplan =
     (case validate_workplan workplan of
        Inl e \<Rightarrow> Inl e
      | Inr ok \<Rightarrow>
          if ok then
            (case chart_try job_title workplan of
               Inl e \<Rightarrow> Inr (Returned e)
             | Inr fig \<Rightarrow> Inr (Fig fig))
          else
            Inl (InvalidParameterType
              (''The workplan parameter expects a dictionary, but received ''
                 @ repr_type (type_of workplan) @ ''.'')))"

section \<open>Properties of the built-ins on lists of ints\<close>

lemma ints_conv: "list_all (\<lambda>v. type_of v = TInt) vs \<longleftrightarrow> (\<exists>ns. vs = map PInt ns)"
proof (induction vs)
  case Nil
  then show ?case by simp
next
  case (Cons v vs)
  show ?case
  proof (cases v)
    case (PInt n)
    show ?thesis
    proof
      assume "list_all (\<lambda>v. type_of v = TInt) (v # vs)"
      with Cons obtain ns where "vs = map PInt ns" by auto
      with PInt have "v # vs = map PInt (n # ns)" by simp
      then show "\<exists>ns. v # vs = map PInt ns" by (rule exI)
    next
      assume "\<exists>ns. v # vs = map PInt ns"
      then show "list_all (\<lambda>v. type_of v = TInt) (v # vs)"
        by (auto simp: list_all_iff)
    qed
  qed (auto simp: list_all_iff)
qed

lemma sum_from_ints: "sum_from acc (map PInt ns) = Inr (acc + sum_list ns)"
  by (induction ns arbitrary: acc) simp_all

lemma py_sum_ints: "py_sum (map PInt ns) = Inr (sum_list ns)"
  by (simp add: py_sum_def sum_from_ints)

lemma max_from_ints: "max_from m (map PInt ns) = Inr (fold max ns m)"
  by (induction ns arbitrary: m) (simp_all add: max_def)

lemma py_max_ints:
  assumes "ns \<noteq> []"
  shows "py_max (map PInt ns) = Inr (Max (set ns))"
proof (cases ns)
  case Nil
  with assms show ?thesis by simp
next
  case (Cons a list)
  have "Max (set (a # list)) = fold max list a" by (rule Max.set_eq_fold)
  then show ?thesis by (simp add: Cons max_from_ints)
qed

subsection \<open>The decimal numeral of an int determines the int\<close>

lemma digit_val_nth:
  assumes "d < 10"
  shows "digit_val (''0123456789'' ! d) = d"
proof -
  from assms have "d \<in> {0, 1, 2, 3, 4, 5, 6, 7, 8, 9}" by auto
  then show ?thesis by (auto simp: digit_val_def)
qed

lemma nat_of_digits_str_nat: "nat_of_digits (str_nat n) = n"
proof (induction n rule: str_nat.induct)
  case (1 n)
  show ?case
  proof (cases "n < 10")
    case True
    then show ?thesis
      by (subst str_nat.simps) (simp add: nat_of_digits_def digit_val_nth)
  next
    case False
    with 1 have "nat_of_digits (str_nat (n div 10)) = n div 10" by simp
    with False show ?thesis
      by (subst str_nat.simps) (simp add: nat_of_digits_def digit_val_nth)
  qed
qed

lemma str_nat_digits: "str_nat n \<noteq> [] \<and> set (str_nat n) \<subseteq> set ''0123456789''"
proof (induction n rule: str_nat.induct)
  case (1 n)
  have m: "''0123456789'' ! d \<in> set ''0123456789''" if "d < 10" for d
    using that by (intro nth_mem) simp
  show ?case
  proof (cases "n < 10")
    case True
    with m [of n] show ?thesis
      by (subst (1 2) str_nat.simps) simp
  next
    case False
    with 1 m [of "n mod 10"] show ?thesis
      by (subst (1 2) str_nat.simps) simp
  qed
qed

lemma str_nat_no_minus: "''-'' @ str_nat a \<noteq> str_nat b"
proof
  assume "''-'' @ str_nat a = str_nat b"
  then have "CHR ''-'' \<in> set (str_nat b)"
    by (metis append_Cons list.set_intros(1))
  with str_nat_digits [of b] show False by auto
qed

lemma str_int_inject: "str_int i = str_int j \<longleftrightarrow> i = j"
proof
  assume e: "str_int i = str_int j"
  have n: "a = b" if "str_nat a = str_nat b" for a b
    using that nat_of_digits_str_nat by metis
  show "i = j"
  proof (cases "i < 0"; cases "j < 0")
    assume "i < 0" "j < 0"
    with e have "nat (- i) = nat (- j)" by (simp add: str_int_def n)
    with \<open>i < 0\<close> \<open>j < 0\<close> show ?thesis by simp
  next
    assume "i < 0" "\<not> j < 0"
    with e str_nat_no_minus show ?thesis by (simp add: str_int_def)
  next
    assume "\<not> i < 0" "j < 0"
    with e str_nat_no_minus [of "nat (- j)" "nat i"] show ?thesis by (simp add: str_int_def)
  next
    assume "\<not> i < 0" "\<not> j < 0"
    with e have "nat i = nat j" by (simp add: str_int_def n)
    with \<open>\<not> i < 0\<close> \<open>\<not> j < 0\<close> show ?thesis by simp
  qed
qed simp

subsection \<open>The digit limit of the conversion\<close>

lemma length_str_nat_gt:
  assumes "0 < k"
  shows "k < length (str_nat n) \<longleftrightarrow> 10 ^ k \<le> n"
  using assms
proof (induction n arbitrary: k rule: str_nat.induct)
  case (1 n)
  show ?case
  proof (cases "n < 10")
    case True
    have "(10::nat) ^ 1 \<le> 10 ^ k"
      using 1(2) by (intro power_increasing) simp_all
    with True have "\<not> 10 ^ k \<le> n" by simp
    moreover from True have "length (str_nat n) = 1"
      by (subst str_nat.simps) simp
    ultimately show ?thesis using 1(2) by simp
  next
    case False
    then have len: "length (str_nat n) = Suc (length (str_nat (n div 10)))"
      by (subst str_nat.simps) simp
    show ?thesis
    proof (cases k)
      case 0
      with 1(2) show ?thesis by simp
    next
      case (Suc j)
      show ?thesis
      proof (cases "j = 0")
        case True
        have "0 < length (str_nat (n div 10))"
          by (subst str_nat.simps) simp
        with True Suc False len show ?thesis by simp
      next
        case j: False
        then have "j < length (str_nat (n div 10)) \<longleftrightarrow> 10 ^ j \<le> n div 10"
          using 1(1) [OF False, of j] by simp
        also have "\<dots> \<longleftrightarrow> 10 ^ j * 10 \<le> n"
          by (simp add: less_eq_div_iff_mult_less_eq)
        finally show ?thesis using Suc len by (simp add: mult.commute)
      qed
    qed
  qed
qed

lemma int_max_str_digits_pos: "0 < int_max_str_digits"
  by (simp add: int_max_str_digits_def)

lemma exceeds_limit_iff:
  "int_max_str_digits < length (str_nat (nat \<bar>i\<bar>)) \<longleftrightarrow> 10 ^ int_max_str_digits \<le> \<bar>i\<bar>"
proof -
  have "int_max_str_digits < length (str_nat (nat \<bar>i\<bar>))
          \<longleftrightarrow> 10 ^ int_max_str_digits \<le> nat \<bar>i\<bar>"
    by (rule length_str_nat_gt [OF int_max_str_digits_pos])
  also have "\<dots> \<longleftrightarrow> int (10 ^ int_max_str_digits) \<le> \<bar>i\<bar>"
    by (simp add: le_nat_iff)
  finally show ?thesis by simp
qed

lemma format_int_within:
  assumes "\<bar>i\<bar> < 10 ^ int_max_str_digits"
  shows "format_int i = Inr (str_int i)"
  using assms by (simp add: format_int_def exceeds_limit_iff)

lemma format_int_beyond:
  assumes "10 ^ int_max_str_digits \<le> \<bar>i\<bar>"
  shows "format_int i =
     Inl (ValueError (''Exceeds the limit (4300 digits) for integer string conversion; ''
            @ ''use sys.set_int_max_str_digits() to increase the limit''))"
  using assms by (simp add: format_int_def exceeds_limit_iff)

section \<open>The outcomes of validation\<close>

lemma validate_workplan_ints:
  assumes "dict_values kvs = map PInt ns"
  shows "validate_workplan (PDict kvs) =
     (if sum_list ns = 100 then Inr True
      else if \<bar>sum_list ns\<bar> < 10 ^ int_max_str_digits then
        Inl (ValuesDontSumTo100
             (''The workplan parameter values should total 100, instead sums to ''
                @ str_int (sum_list ns) @ ''.''))
      else
        Inl (Uncaught
          (ValueError (''Exceeds the limit (4300 digits) for integer string conversion; ''
             @ ''use sys.set_int_max_str_digits() to increase the limit''))))"
proof -
  have "list_all (\<lambda>v. type_of v = TInt) (dict_values kvs)"
    using assms ints_conv by blast
  then show ?thesis
    by (simp add: validate_workplan_def assms py_sum_ints format_int_within
        format_int_beyond)
qed



lemma validate_workplan_not_ints:
  assumes "\<not> list_all (\<lambda>v. type_of v = TInt) (dict_values kvs)"
  shows "validate_workplan (PDict kvs) =
     Inl (ValuesNotTypeInt
       (''All workplan values must be integers, instead received type(s): ''
          @ repr_type_list
              (map type_of (filter (\<lambda>v. \<not> isinstance_int v) (dict_values kvs)))
          @ ''.''))"
  using assms by (simp add: validate_workplan_def)



lemma validate_workplan_True_iff:
  "validate_workplan w = Inr True \<longleftrightarrow>
     (\<exists>kvs ns. w = PDict kvs \<and> dict_values kvs = map PInt ns \<and> sum_list ns = 100)"
proof (cases w)
  case (PDict kvs)
  show ?thesis
  proof (cases "list_all (\<lambda>v. type_of v = TInt) (dict_values kvs)")
    case True
    then obtain ns where ns: "dict_values kvs = map PInt ns"
      using ints_conv by blast
    have inj: "inj PInt" by (simp add: inj_def)
    show ?thesis
      using validate_workplan_ints [OF ns] ns PDict
      by (auto simp: inj_map_eq_map [OF inj])
  next
    case False
    then have "\<nexists>ns. dict_values kvs = map PInt ns"
      using ints_conv by blast
    with False show ?thesis
      by (simp add: PDict validate_workplan_not_ints)
  qed
qed (simp_all add: validate_workplan_def)

section \<open>The chart of a valid workplan\<close>

lemma chart_try_Fig:
  assumes "dict_values kvs = map PInt ns" and "ns \<noteq> []"
  shows "chart_try t (PDict kvs) =
     Inr \<lparr>fig_data = [\<lparr>sp_r = dict_values kvs, sp_theta = dict_keys kvs,
                          sp_fill = ''toself'', sp_fillcolor = ''#a1d99b'',
                          sp_line_color = ''#a1d99b''\<rparr>],
          fig_layout = \<lparr>lo_title = t @ ''<br>Responsibilities'',
                          lo_font_color = ''#a1d99b'',
                          lo_radialaxis_visible = True,
                          lo_radialaxis_color = ''black'',
                          lo_radialaxis_linecolor = ''green'',
                          lo_radialaxis_range = [0, Max (set ns) + 5],
                          lo_showlegend = False,
                          lo_hovermode = ''closest''\<rparr>\<rparr>"
  using assms by (simp add: chart_try_def py_max_ints)

lemma position_radarchart_valid:
  assumes "validate_workplan w = Inr True"
  obtains kvs ns fig tr where "w = PDict kvs" and "dict_values kvs = map PInt ns"
    and "ns \<noteq> []" and "position_radarchart t w = Inr (Fig fig)"
    and "fig_data fig = [tr]" and "sp_r tr = dict_values kvs"
    and "sp_theta tr = dict_keys kvs"
    and "lo_title (fig_layout fig) = t @ ''<br>Responsibilities''"
    and "lo_radialaxis_range (fig_layout fig) = [0, Max (set ns) + 5]"
proof -
  from assms obtain kvs ns where w: "w = PDict kvs"
    and ns: "dict_values kvs = map PInt ns" and s: "sum_list ns = 100"
    unfolding validate_workplan_True_iff by blast
  from s have ne: "ns \<noteq> []" by auto
  let ?tr = "\<lparr>sp_r = dict_values kvs, sp_theta = dict_keys kvs,
               sp_fill = ''toself'', sp_fillcolor = ''#a1d99b'',
               sp_line_color = ''#a1d99b''\<rparr>"
  let ?lo = "\<lparr>lo_title = t @ ''<br>Responsibilities'',
               lo_font_color = ''#a1d99b'',
               lo_radialaxis_visible = True,
               lo_radialaxis_color = ''black'',
               lo_radialaxis_linecolor = ''green'',
               lo_radialaxis_range = [0, Max (set ns) + 5],
               lo_showlegend = False,
               lo_hovermode = ''closest''\<rparr>"
  from assms have p: "position_radarchart t w =
      Inr (Fig \<lparr>fig_data = [?tr], fig_layout = ?lo\<rparr>)"
    by (simp add: position_radarchart_def w chart_try_Fig [OF ns ne])
  show thesis
    by (rule that [OF w ns ne p, of ?tr]) simp_all
qed


section \<open>The claims\<close>

text \<open>
  Throughout, a value "is an integer" when its class is exactly \<^verbatim>\<open>int\<close>, which is the
  test the source applies (\<^verbatim>\<open>type(value) is int\<close>): the values of such a dictionary are
  \<open>map PInt ns\<close> for a list \<open>ns\<close> of mathematical integers.
\<close>

text \<open>
  C1. Every dictionary whose values are all integers and sum to exactly 100 is accepted:
  \<^verbatim>\<open>validate_workplan\<close> returns \<^verbatim>\<open>True\<close>.
\<close>

theorem validate_workplan_accepts_sum_100:
  assumes "dict_values kvs = map PInt ns" and "sum_list ns = 100"
  shows "validate_workplan (PDict kvs) = Inr True"
  using assms by (simp add: validate_workplan_ints)

theorem validate_workplan_accepts_sum_100_witness:
  "dict_values [(PStr ''memo writing'', PInt 20), (PStr ''answering phones'', PInt 20),
                (PStr ''drinking coffee'', PInt 60)] = map PInt [20, 20, 60]
   \<and> sum_list [20, 20, 60 :: int] = 100
   \<and> validate_workplan (PDict [(PStr ''memo writing'', PInt 20),
         (PStr ''answering phones'', PInt 20), (PStr ''drinking coffee'', PInt 60)]) = Inr True"
  using validate_workplan_accepts_sum_100
    [of "[(PStr ''memo writing'', PInt 20), (PStr ''answering phones'', PInt 20),
          (PStr ''drinking coffee'', PInt 60)]" "[20, 20, 60]"]
  by (simp add: dict_values_def)

text \<open>
  C2. For every workplan that passes validation, \<^verbatim>\<open>position_radarchart\<close> returns a
  figure whose single trace has the keys of the workplan as \<^verbatim>\<open>theta\<close> and its values as
  \<^verbatim>\<open>r\<close>, both in the order of the dictionary's items. The instance checked after the
  theorem is the workplan of "Auto Mechanic II".
\<close>

theorem radarchart_keeps_insertion_order:
  assumes "validate_workplan w = Inr True"
  shows "\<exists>kvs fig tr. w = PDict kvs \<and> position_radarchart t w = Inr (Fig fig)
           \<and> fig_data fig = [tr] \<and> sp_theta tr = map fst kvs \<and> sp_r tr = map snd kvs"
proof -
  obtain kvs fig tr where "w = PDict kvs" and "position_radarchart t w = Inr (Fig fig)"
    and "fig_data fig = [tr]" and "sp_r tr = dict_values kvs"
    and "sp_theta tr = dict_keys kvs"
    by (rule position_radarchart_valid [OF assms, of t])
  then show ?thesis
    by (simp add: dict_keys_def dict_values_def)
qed

theorem radarchart_keeps_insertion_order_witness:
  "validate_workplan (PDict [(PStr ''repair'', PInt 40), (PStr ''inspection'', PInt 35),
      (PStr ''paperwork'', PInt 25)]) = Inr True
   \<and> (\<exists>fig tr. position_radarchart ''Auto Mechanic II''
          (PDict [(PStr ''repair'', PInt 40), (PStr ''inspection'', PInt 35),
      (PStr ''paperwork'', PInt 25)]) = Inr (Fig fig)
        \<and> fig_data fig = [tr]
        \<and> sp_theta tr = [PStr ''repair'', PStr ''inspection'', PStr ''paperwork'']
        \<and> sp_r tr = [PInt 40, PInt 35, PInt 25])"
proof -
  have v: "validate_workplan (PDict [(PStr ''repair'', PInt 40), (PStr ''inspection'', PInt 35),
      (PStr ''paperwork'', PInt 25)]) = Inr True"
    by (simp add: validate_workplan_def dict_values_def py_sum_def)
  show ?thesis
    using v radarchart_keeps_insertion_order [OF v, of "''Auto Mechanic II''"] by auto
qed

text \<open>
  C3. For every workplan that passes validation, the range of the radial axis in the
  figure is the two-element list of 0 and the greatest value plus 5.
\<close>

theorem radarchart_axis_range:
  assumes "validate_workplan w = Inr True"
  shows "\<exists>kvs ns fig. w = PDict kvs \<and> map snd kvs = map PInt ns \<and> ns \<noteq> []
           \<and> position_radarchart t w = Inr (Fig fig)
           \<and> lo_radialaxis_range (fig_layout fig) = [0, Max (set ns) + 5]"
proof -
  obtain kvs ns fig where "w = PDict kvs" and "dict_values kvs = map PInt ns"
    and "ns \<noteq> []" and "position_radarchart t w = Inr (Fig fig)"
    and "lo_radialaxis_range (fig_layout fig) = [0, Max (set ns) + 5]"
    by (rule position_radarchart_valid [OF assms, of t])
  then show ?thesis
    by (auto simp: dict_values_def)
qed

theorem radarchart_axis_range_witness:
  "validate_workplan (PDict [(PStr ''repair'', PInt 40), (PStr ''inspection'', PInt 35),
      (PStr ''paperwork'', PInt 25)]) = Inr True
   \<and> (\<exists>fig. position_radarchart ''Auto Mechanic II''
          (PDict [(PStr ''repair'', PInt 40), (PStr ''inspection'', PInt 35),
      (PStr ''paperwork'', PInt 25)]) = Inr (Fig fig)
        \<and> lo_radialaxis_range (fig_layout fig) = [0, 45])"
proof -
  have v: "validate_workplan (PDict [(PStr ''repair'', PInt 40), (PStr ''inspection'', PInt 35),
      (PStr ''paperwork'', PInt 25)]) = Inr True"
    by (simp add: validate_workplan_def dict_values_def py_sum_def)
  show ?thesis
    using v radarchart_axis_range [OF v, of "''Auto Mechanic II''"]
    by (auto simp: map_eq_Cons_conv)
qed




text \<open>
  C5. A dictionary with a value that is not an integer is rejected with
  \<^verbatim>\<open>ValuesNotTypeInt\<close> (lemma \<open>validate_workplan_not_ints\<close>), but the message does not
  always name the class of the offending value. The gate rejects every value whose class
  is not exactly \<^verbatim>\<open>int\<close>, while the message lists only the values that fail
  \<^verbatim>\<open>isinstance(value, int)\<close>; a \<^verbatim>\<open>bool\<close> is rejected by the first and passes the
  second. For \<^verbatim>\<open>{"a": True, "b": 99}\<close> the message lists no class at all.
\<close>

theorem validate_workplan_bool_message:
  "validate_workplan (PDict [(PStr ''a'', PBool True), (PStr ''b'', PInt 99)]) =
     Inl (ValuesNotTypeInt
       ''All workplan values must be integers, instead received type(s): [].'')"
  by (simp add: validate_workplan_def dict_values_def isinstance_int_def repr_type_list_def)

text \<open>
  C6. Every argument that is not a dictionary is rejected with \<^verbatim>\<open>InvalidParameterType\<close>,
  and the message names the class of the argument. Nothing else about the argument is
  looked at: the instance checked after the theorem is a list holding a float and a
  string, which the later checks on the values would reject for other reasons.
\<close>

theorem validate_workplan_non_dict:
  assumes "\<not> isinstance_dict w"
  shows "validate_workplan w =
     Inl (InvalidParameterType
       (''The workplan parameter expects a dictionary, but received ''
          @ repr_type (type_of w) @ ''.''))"
  using assms by (cases w) (simp_all add: validate_workplan_def isinstance_dict_def)

theorem validate_workplan_non_dict_witness:
  "\<not> isinstance_dict (PList [PFloat 0x3FF8000000000000, PStr ''x''])
   \<and> validate_workplan (PList [PFloat 0x3FF8000000000000, PStr ''x'']) =
     Inl (InvalidParameterType
       (''The workplan parameter expects a dictionary, but received <class ''
          @ [CHR 0x27] @ ''list'' @ [CHR 0x27] @ ''>.''))"
proof -
  have d: "\<not> isinstance_dict (PList [PFloat 0x3FF8000000000000, PStr ''x''])"
    by (simp add: isinstance_dict_def)
  show ?thesis
    using d validate_workplan_non_dict [OF d] by (simp add: repr_type_def)
qed




text \<open>
  C8. Whenever \<^verbatim>\<open>validate_workplan\<close> raises, \<^verbatim>\<open>position_radarchart\<close> raises the same
  exception with the same message, whatever the title; no figure is returned.
\<close>

theorem radarchart_propagates_error:
  assumes "validate_workplan w = Inl e"
  shows "position_radarchart t w = Inl e"
  using assms by (simp add: position_radarchart_def)

theorem radarchart_propagates_error_witness:
  "validate_workplan (PDict [(PStr ''a'', PStr ''50''), (PStr ''b'', PInt 50)]) =
     Inl (ValuesNotTypeInt
       (''All workplan values must be integers, instead received type(s): [<class ''
          @ [CHR 0x27] @ ''str'' @ [CHR 0x27] @ ''>].''))
   \<and> position_radarchart ''Clerk'' (PDict [(PStr ''a'', PStr ''50''), (PStr ''b'', PInt 50)]) =
     Inl (ValuesNotTypeInt
       (''All workplan values must be integers, instead received type(s): [<class ''
          @ [CHR 0x27] @ ''str'' @ [CHR 0x27] @ ''>].''))"
proof -
  have v: "validate_workplan (PDict [(PStr ''a'', PStr ''50''), (PStr ''b'', PInt 50)]) =
     Inl (ValuesNotTypeInt
       (''All workplan values must be integers, instead received type(s): [<class ''
          @ [CHR 0x27] @ ''str'' @ [CHR 0x27] @ ''>].''))"
    by (simp add: validate_workplan_def dict_values_def isinstance_int_def
        repr_type_list_def repr_type_def)
  show ?thesis
    using v radarchart_propagates_error [OF v, of "''Clerk''"] by simp
qed

text \<open>
  C9, as stated: the title of the figure is the job title, a line feed and the word
  Responsibilities. The source joins the two with the markup \<^verbatim>\<open><br>\<close>, not with a line
  feed: for "Auto Mechanic II" the title of the figure is not the string the claim gives.
\<close>

theorem title_line_feed_counterexample:
  "validate_workplan (PDict [(PStr ''repair'', PInt 40), (PStr ''inspection'', PInt 35),
      (PStr ''paperwork'', PInt 25)]) = Inr True
   \<and> position_radarchart ''Auto Mechanic II''
       (PDict [(PStr ''repair'', PInt 40), (PStr ''inspection'', PInt 35),
      (PStr ''paperwork'', PInt 25)]) =
     Inr (Fig
       \<lparr>fig_data = [\<lparr>sp_r = [PInt 40, PInt 35, PInt 25],
                     sp_theta = [PStr ''repair'', PStr ''inspection'', PStr ''paperwork''],
                     sp_fill = ''toself'', sp_fillcolor = ''#a1d99b'',
                     sp_line_color = ''#a1d99b''\<rparr>],
        fig_layout = \<lparr>lo_title = ''Auto Mechanic II<br>Responsibilities'',
                       lo_font_color = ''#a1d99b'',
                       lo_radialaxis_visible = True,
                       lo_radialaxis_color = ''black'',
                       lo_radialaxis_linecolor = ''green'',
                       lo_radialaxis_range = [0, 45],
                       lo_showlegend = False,
                       lo_hovermode = ''closest''\<rparr>\<rparr>)
   \<and> ''Auto Mechanic II<br>Responsibilities''
       \<noteq> ''Auto Mechanic II'' @ [CHR 0x0A] @ ''Responsibilities''"
  by (simp add: position_radarchart_def validate_workplan_def chart_try_def
      dict_values_def dict_keys_def py_sum_def)

text \<open>
  C9, amended: for every title string and every workplan that passes validation, the
  title of the figure is the job title followed by \<^verbatim>\<open><br>Responsibilities\<close>; the job
  title is a prefix of it.
\<close>

theorem radarchart_title_br:
  assumes "validate_workplan w = Inr True"
  shows "\<exists>fig. position_radarchart t w = Inr (Fig fig)
           \<and> lo_title (fig_layout fig) = t @ ''<br>Responsibilities''"
proof -
  obtain fig where "position_radarchart t w = Inr (Fig fig)"
    and "lo_title (fig_layout fig) = t @ ''<br>Responsibilities''"
    by (rule position_radarchart_valid [OF assms, of t])
  then show ?thesis by simp
qed

theorem radarchart_title_br_witness:
  "validate_workplan (PDict [(PStr ''repair'', PInt 40), (PStr ''inspection'', PInt 35),
      (PStr ''paperwork'', PInt 25)]) = Inr True
   \<and> (\<exists>fig. position_radarchart ''Auto Mechanic II''
          (PDict [(PStr ''repair'', PInt 40), (PStr ''inspection'', PInt 35),
      (PStr ''paperwork'', PInt 25)]) = Inr (Fig fig)
        \<and> lo_title (fig_layout fig) = ''Auto Mechanic II<br>Responsibilities'')"
proof -
  have v: "validate_workplan (PDict [(PStr ''repair'', PInt 40), (PStr ''inspection'', PInt 35),
      (PStr ''paperwork'', PInt 25)]) = Inr True"
    by (simp add: validate_workplan_def dict_values_def py_sum_def)
  show ?thesis
    using v radarchart_title_br [OF v, of "''Auto Mechanic II''"] by simp
qed

text \<open>
  C10. No check looks at the sign of a value: the workplan \<^verbatim>\<open>{"a": -10, "b": 110}\<close>
  holds a negative value, passes validation, and \<^verbatim>\<open>position_radarchart\<close> builds its
  figure, with axis range [0, 115].
\<close>

theorem validate_workplan_accepts_negative:
  "(- 10 :: int) < 0
   \<and> validate_workplan (PDict [(PStr ''a'', PInt (- 10)), (PStr ''b'', PInt 110)]) = Inr True
   \<and> position_radarchart t (PDict [(PStr ''a'', PInt (- 10)), (PStr ''b'', PInt 110)]) =
     Inr (Fig
       \<lparr>fig_data = [\<lparr>sp_r = [PInt (- 10), PInt 110],
                     sp_theta = [PStr ''a'', PStr ''b''],
                     sp_fill = ''toself'', sp_fillcolor = ''#a1d99b'',
                     sp_line_color = ''#a1d99b''\<rparr>],
        fig_layout = \<lparr>lo_title = t @ ''<br>Responsibilities'',
                       lo_font_color = ''#a1d99b'',
                       lo_radialaxis_visible = True,
                       lo_radialaxis_color = ''black'',
                       lo_radialaxis_linecolor = ''green'',
                       lo_radialaxis_range = [0, 115],
                       lo_showlegend = False,
                       lo_hovermode = ''closest''\<rparr>\<rparr>)"
  by (simp add: position_radarchart_def validate_workplan_def chart_try_def
      dict_values_def dict_keys_def py_sum_def)

end
